theory Spec2Isabelle
  imports Main "HOL-Library.AList"
begin

section \<open>Python values, types and exceptions\<close>

text \<open>
  The runtime types the library distinguishes. \<open>field.py\<close> registers \<open>str\<close>, \<open>int\<close>,
  \<open>float\<close> and \<open>datetime\<close>; \<open>bool\<close> is kept apart because it is a subclass of \<open>int\<close>,
  which \<open>isinstance\<close> sees and the type table (compared with \<open>==\<close>) does not.
\<close>

datatype py_type = TStr | TInt | TFloat | TDatetime | TBool | TNoneType | TField | TOther string

text \<open>\<open>type.__name__\<close>\<close>

fun type_name :: "py_type \<Rightarrow> string" where
  "type_name TStr = ''str''"
| "type_name TInt = ''int''"
| "type_name TFloat = ''float''"
| "type_name TDatetime = ''datetime''"
| "type_name TBool = ''bool''"
| "type_name TNoneType = ''NoneType''"
| "type_name TField = ''Field''"
| "type_name (TOther n) = n"

text \<open>
  Exceptions as values. \<open>PyException\<close> is the plain \<open>Exception(text)\<close> that \<open>field.py\<close> and
  \<open>model.py\<close> raise; \<open>BadValue\<close>, \<open>FieldDoesNotExist\<close> and \<open>NotConnected\<close> are the classes of
  \<open>exceptions.py\<close>; the others are raised by the interpreter or by the storage engine.
\<close>

datatype error =
    PyException string
  | BadValue string string
  | FieldDoesNotExist string
  | NotConnected
  | KeyError
  | TypeError
  | IndexError
  | AttributeError
  | EngineError

text \<open>The message each exception of \<open>exceptions.py\<close> is built with.\<close>

fun error_text :: "error \<Rightarrow> string" where
  "error_text (PyException s) = s"
| "error_text (BadValue field_name expected_type) =
     ''received wrong value type for field '' @ field_name @ '', expected '' @ expected_type"
| "error_text (FieldDoesNotExist field_name) = field_name @ '' is not an existent field''"
| "error_text NotConnected = ''This database handler isn't connected to a database.''"
| "error_text _ = []"

section \<open>field.py: the type table\<close>

text \<open>\<open>DATATYPES\<close>: each entry pairs a Python type with its tuple of SQL type names.\<close>

definition DATATYPES :: "(py_type \<times> string list) list" where
  "DATATYPES =
     [(TStr, [''TEXT'', ''CHAR'']),
      (TInt, [''INTEGER'', ''BIGINT'']),
      (TFloat, [''FLOAT'']),
      (TDatetime, [''DATETIME''])]"

text \<open>
  \<open>sql_type\<close>: the first entry whose Python type equals the argument gives \<open>datatype.sql[0]\<close>;
  the loop falling through raises.
\<close>

fun sql_type_loop :: "(py_type \<times> string list) list \<Rightarrow> py_type \<Rightarrow> error + string" where
  "sql_type_loop [] t = Inl (PyException (''received invalid type '' @ type_name t))"
| "sql_type_loop ((p, sqls) # ds) t =
     (if p = t then (case sqls of [] \<Rightarrow> Inl IndexError | s # _ \<Rightarrow> Inr s)
      else sql_type_loop ds t)"

definition sql_type :: "py_type \<Rightarrow> error + string" where
  "sql_type t = sql_type_loop DATATYPES t"

text \<open>\<open>python_type\<close>: the first entry whose tuple contains the name gives its Python type.\<close>

fun python_type_loop :: "(py_type \<times> string list) list \<Rightarrow> string \<Rightarrow> error + py_type" where
  "python_type_loop [] s = Inl (PyException (''received invalid SQL type '' @ s))"
| "python_type_loop ((p, sqls) # ds) s =
     (if s \<in> set sqls then Inr p else python_type_loop ds s)"

definition python_type :: "string \<Rightarrow> error + py_type" where
  "python_type s = python_type_loop DATATYPES s"

section \<open>field.py: Field objects and the values a model holds\<close>

text \<open>
  A \<open>Field\<close> object: its identity (objects of a class without \<open>__eq__\<close> compare by
  identity), and the four attributes \<open>__init__\<close> stores.
\<close>

datatype 'v field_obj =
  PyField (fid: nat) (field_name: string) (field_type: py_type) (field_sql_type: string)
    (field_default: 'v)

text \<open>
  The values of the embedding: \<open>None\<close>, booleans, integers, strings and \<open>Field\<close> objects.
  Values of type \<open>float\<close> and \<open>datetime\<close> are not represented (their equality and text
  form are those of IEEE arithmetic and of the calendar); the two types themselves are.
\<close>

datatype pyval = VNone | VBool bool | VInt int | VStr string | VField "pyval field_obj"

type_synonym field = "pyval field_obj"

fun type_of :: "pyval \<Rightarrow> py_type" where
  "type_of VNone = TNoneType"
| "type_of (VBool _) = TBool"
| "type_of (VInt _) = TInt"
| "type_of (VStr _) = TStr"
| "type_of (VField _) = TField"

text \<open>\<open>isinstance(value, t)\<close>: the type itself, or \<open>int\<close> for a \<open>bool\<close>.\<close>

definition isinstance :: "pyval \<Rightarrow> py_type \<Rightarrow> bool" where
  "isinstance v t = (type_of v = t \<or> (type_of v = TBool \<and> t = TInt))"

text \<open>\<open>Field.__init__(name, field_type, default)\<close>: \<open>field_type\<close> is a type or an SQL type name.\<close>

datatype field_type_arg = ByType py_type | BySql string

definition Field_init :: "nat \<Rightarrow> string \<Rightarrow> field_type_arg \<Rightarrow> pyval \<Rightarrow> error + field" where
  "Field_init i name ft dflt =
     (case ft of
        BySql s \<Rightarrow> (case python_type s of Inl e \<Rightarrow> Inl e | Inr t \<Rightarrow> Inr (PyField i name t s dflt))
      | ByType t \<Rightarrow> (case sql_type t of Inl e \<Rightarrow> Inl e | Inr s \<Rightarrow> Inr (PyField i name t s dflt)))"

text \<open>\<open>Field.to_sql\<close>\<close>

definition field_to_sql :: "field \<Rightarrow> string" where
  "field_to_sql f = field_name f @ '' '' @ field_sql_type f"

subsection \<open>Text forms\<close>

text \<open>\<open>sep.join(parts)\<close>\<close>

fun join :: "string \<Rightarrow> string list \<Rightarrow> string" where
  "join sep [] = []"
| "join sep [x] = x"
| "join sep (x # y # ys) = x @ sep @ join sep (y # ys)"

text \<open>\<open>str\<close> of a natural number in a base up to 16, and of an integer in base ten.\<close>

definition digit_char :: "nat \<Rightarrow> char" where
  "digit_char d = ''0123456789abcdef'' ! d"

function str_base :: "nat \<Rightarrow> nat \<Rightarrow> string" where
  "str_base b n =
     (if b < 2 \<or> n < b then [digit_char n] else str_base b (n div b) @ [digit_char (n mod b)])"
  by pat_completeness auto
termination
  by (relation "measure snd") auto

definition str_int :: "int \<Rightarrow> string" where
  "str_int i = (if i < 0 then CHR ''-'' # str_base 10 (nat (- i)) else str_base 10 (nat i))"

text \<open>
  \<open>str(value)\<close>. A \<open>Field\<close> has no \<open>__str__\<close> or \<open>__repr__\<close>, so its text is the default
  one of an object, which shows its identity.
\<close>

fun py_str :: "pyval \<Rightarrow> string" where
  "py_str VNone = ''None''"
| "py_str (VBool b) = (if b then ''True'' else ''False'')"
| "py_str (VInt i) = str_int i"
| "py_str (VStr s) = s"
| "py_str (VField f) = ''<ormic.field.Field object at 0x'' @ str_base 16 (fid f) @ ''>''"

text \<open>\<open>a == b\<close> on values: numbers by value (\<open>True == 1\<close>), \<open>Field\<close> objects by identity.\<close>

fun num_of :: "pyval \<Rightarrow> int option" where
  "num_of (VBool b) = Some (if b then 1 else 0)"
| "num_of (VInt i) = Some i"
| "num_of _ = None"

fun py_eq :: "pyval \<Rightarrow> pyval \<Rightarrow> bool" where
  "py_eq VNone VNone = True"
| "py_eq (VStr s) (VStr t) = (s = t)"
| "py_eq (VField f) (VField g) = (fid f = fid g)"
| "py_eq a b = (case (num_of a, num_of b) of (Some x, Some y) \<Rightarrow> x = y | _ \<Rightarrow> False)"

text \<open>\<open>xs == ys\<close> on tuples: the same length, and equal item by item.\<close>

definition tuple_eq :: "pyval list \<Rightarrow> pyval list \<Rightarrow> bool" where
  "tuple_eq xs ys = list_all2 py_eq xs ys"

section \<open>model.py: classes and the field dictionary\<close>

text \<open>
  A class object: its \<open>__name__\<close>, its direct bases, the rest of its \<open>__mro__\<close> (without
  \<open>object\<close>), its \<open>__annotations__\<close> in declaration order, the data attributes its own
  \<open>__dict__\<close> binds, and its own bindings of \<open>_database\<close> and \<open>_fields\<close>, the latter a reference
  to a dictionary in the store. Classes are named by their identity.
\<close>

record pyclass =
  cls_name :: string
  cls_bases :: "nat list"
  cls_mro :: "nat list"
  cls_annotations :: "(string \<times> field_type_arg) list"
  cls_attrs :: "(string \<times> pyval) list"
  cls_database :: "nat option"
  cls_fields :: "nat option"

text \<open>
  The interpreter state the library works on: a store of dictionary objects by address, the
  classes by identity, and the next free identity. A dictionary is an association list in
  insertion order; storing under a key that is present keeps the key's position
  (\<open>AList.update\<close>).

  The members class \<open>Model\<close> defines itself (its methods and its properties \<open>fields\<close>,
  \<open>values\<close>, \<open>database\<close>) are not data attributes of the embedding: field and attribute
  names are taken not to shadow them.
\<close>

record world =
  dicts :: "(nat \<times> (string \<times> field) list) list"
  classes :: "(nat \<times> pyclass) list"
  next_id :: nat

text \<open>
  Class \<open>Model\<close> as its body leaves it: \<open>_database = None\<close>, and \<open>_fields\<close> bound to the
  dictionary that line 25 creates, \<open>_fields: Dict[str, Field] = {}\<close>. This is the only
  statement of the library that binds \<open>_fields\<close>.
\<close>

definition Model_id :: nat where
  "Model_id = 0"

definition Model_fields_addr :: nat where
  "Model_fields_addr = 1"

definition Model_class :: pyclass where
  "Model_class =
     \<lparr>cls_name = ''Model'', cls_bases = [], cls_mro = [], cls_annotations = [],
      cls_attrs = [], cls_database = None, cls_fields = Some Model_fields_addr\<rparr>"

definition world0 :: world where
  "world0 =
     \<lparr>dicts = [(Model_fields_addr, [])], classes = [(Model_id, Model_class)], next_id = 2\<rparr>"

definition class_of :: "world \<Rightarrow> nat \<Rightarrow> pyclass option" where
  "class_of w c = map_of (classes w) c"

text \<open>\<open>cls.__mro__\<close>, the class first.\<close>

definition mro :: "world \<Rightarrow> nat \<Rightarrow> nat list" where
  "mro w c = (case class_of w c of None \<Rightarrow> [c] | Some k \<Rightarrow> c # cls_mro k)"

text \<open>
  The order of the bases' classes in a new class's \<open>__mro__\<close>. For one base, and for the pair
  \<open>(cls, Model)\<close> that \<open>Database.model\<close> builds, this is Python's linearisation.
\<close>

definition linearize :: "world \<Rightarrow> nat list \<Rightarrow> nat list" where
  "linearize w bases = remdups (concat (map (mro w) bases))"

text \<open>Attribute lookup on a class: the first class of the \<open>__mro__\<close> that binds the name.\<close>

fun lookup_attr :: "world \<Rightarrow> nat list \<Rightarrow> string \<Rightarrow> pyval option" where
  "lookup_attr w [] n = None"
| "lookup_attr w (c # cs) n =
     (case class_of w c of
        None \<Rightarrow> lookup_attr w cs n
      | Some k \<Rightarrow> (case map_of (cls_attrs k) n of Some v \<Rightarrow> Some v | None \<Rightarrow> lookup_attr w cs n))"

definition class_getattr :: "world \<Rightarrow> nat \<Rightarrow> string \<Rightarrow> pyval option" where
  "class_getattr w c n = lookup_attr w (mro w c) n"

text \<open>
  \<open>cls._fields\<close>: the same lookup for the name \<open>_fields\<close>, which gives the address of a
  dictionary, or nothing (an \<open>AttributeError\<close>) when no class of the \<open>__mro__\<close> binds it.
\<close>

fun lookup_fields :: "world \<Rightarrow> nat list \<Rightarrow> nat option" where
  "lookup_fields w [] = None"
| "lookup_fields w (c # cs) =
     (case class_of w c of
        None \<Rightarrow> lookup_fields w cs
      | Some k \<Rightarrow> (case cls_fields k of Some a \<Rightarrow> Some a | None \<Rightarrow> lookup_fields w cs))"

definition fields_ref :: "world \<Rightarrow> nat \<Rightarrow> nat option" where
  "fields_ref w c = lookup_fields w (mro w c)"

definition dict_at :: "world \<Rightarrow> nat \<Rightarrow> (string \<times> field) list" where
  "dict_at w a = (case map_of (dicts w) a of Some d \<Rightarrow> d | None \<Rightarrow> [])"

text \<open>\<open>d[name] = field\<close> for the dictionary at an address.\<close>

definition dict_store :: "nat \<Rightarrow> string \<Rightarrow> field \<Rightarrow> world \<Rightarrow> world" where
  "dict_store a name f w = w\<lparr>dicts := AList.update a (AList.update name f (dict_at w a)) (dicts w)\<rparr>"

text \<open>
  The field of one annotation in \<open>Model.__init_subclass__\<close>: the default is
  \<open>getattr(cls, name, None)\<close>; a default that is a \<open>Field\<close> is taken as the field, otherwise a
  new \<open>Field(name, type, default)\<close> is built, which raises on a type outside the table.
\<close>

definition field_for :: "nat \<Rightarrow> string \<Rightarrow> field_type_arg \<Rightarrow> world \<Rightarrow> error + field \<times> world" where
  "field_for c name ty w =
     (let dflt = (case class_getattr w c name of Some v \<Rightarrow> v | None \<Rightarrow> VNone) in
      case dflt of
        VField f \<Rightarrow> Inr (f, w)
      | _ \<Rightarrow>
         (case Field_init (next_id w) name ty dflt of
            Inl e \<Rightarrow> Inl e
          | Inr f \<Rightarrow> Inr (f, w\<lparr>next_id := Suc (next_id w)\<rparr>)))"

text \<open>
  The loop of \<open>Model.__init_subclass__\<close> over \<open>cls.__annotations__.items()\<close>:
  \<open>cls._fields[name] = field\<close> stores into the dictionary that \<open>cls._fields\<close> evaluates to.
  What was stored before a raise stays stored.
\<close>

fun init_fields :: "nat \<Rightarrow> (string \<times> field_type_arg) list \<Rightarrow> world \<Rightarrow> world \<times> error option" where
  "init_fields c [] w = (w, None)"
| "init_fields c ((name, ty) # rest) w =
     (case field_for c name ty w of
        Inl e \<Rightarrow> (w, Some e)
      | Inr (f, w1) \<Rightarrow>
         (case fields_ref w1 c of
            None \<Rightarrow> (w1, Some AttributeError)
          | Some a \<Rightarrow> init_fields c rest (dict_store a name f w1)))"

text \<open>
  \<open>Model.__init_subclass__(cls)\<close>: the loop, then
  \<open>cls.__tablename__ = getattr(cls, "__tablename__", cls.__name__)\<close>.
\<close>

definition init_subclass :: "nat \<Rightarrow> world \<Rightarrow> world \<times> error option" where
  "init_subclass c w =
     (case class_of w c of
        None \<Rightarrow> (w, Some AttributeError)
      | Some k \<Rightarrow>
         (case init_fields c (cls_annotations k) w of
            (w1, Some e) \<Rightarrow> (w1, Some e)
          | (w1, None) \<Rightarrow>
              (let t = (case class_getattr w1 c ''__tablename__'' of
                          Some v \<Rightarrow> v | None \<Rightarrow> VStr (cls_name k))
               in (w1\<lparr>classes :=
                        AList.update c (k\<lparr>cls_attrs := AList.update ''__tablename__'' t (cls_attrs k)\<rparr>)
                          (classes w1)\<rparr>, None))))"

text \<open>
  Creating a class, by a \<open>class\<close> statement or by \<open>type(name, bases, dict)\<close>: the class object
  is made from the body's bindings, among which there is none of \<open>_fields\<close>, and
  \<open>__init_subclass__\<close> runs when \<open>Model\<close> is among its ancestors. The result is the new
  class, or the exception that \<open>__init_subclass__\<close> raised.
\<close>

definition new_class ::
  "string \<Rightarrow> nat list \<Rightarrow> (string \<times> field_type_arg) list \<Rightarrow> (string \<times> pyval) list \<Rightarrow> world
     \<Rightarrow> world \<times> (error + nat)" where
  "new_class name bases anns attrs w =
     (let c = next_id w;
          k = \<lparr>cls_name = name, cls_bases = bases, cls_mro = linearize w bases,
               cls_annotations = anns, cls_attrs = attrs, cls_database = None,
               cls_fields = None\<rparr>;
          w1 = w\<lparr>classes := AList.update c k (classes w), next_id := Suc c\<rparr>
      in if Model_id \<in> set (cls_mro k)
         then (case init_subclass c w1 of (w2, Some e) \<Rightarrow> (w2, Inl e) | (w2, None) \<Rightarrow> (w2, Inr c))
         else (w1, Inr c))"

text \<open>
  The dictionary that \<open>cls._fields\<close>, and \<open>self._fields\<close> on an instance of \<open>cls\<close>, evaluate
  to. The lookup does not fail for a class that has \<open>Model\<close> among its ancestors, and the
  methods of \<open>Model\<close> are called on no other.
\<close>

definition fields_dict :: "world \<Rightarrow> nat \<Rightarrow> (string \<times> field) list" where
  "fields_dict w c = (case fields_ref w c of Some a \<Rightarrow> dict_at w a | None \<Rightarrow> [])"

text \<open>\<open>Model.to_sql_table\<close>\<close>

definition to_sql_table :: "world \<Rightarrow> nat \<Rightarrow> error + string" where
  "to_sql_table w c =
     (case class_getattr w c ''__tablename__'' of
        None \<Rightarrow> Inl AttributeError
      | Some t \<Rightarrow>
          Inr (py_str t @ '' ('' @ join '', '' (map (\<lambda>(n, f). field_to_sql f) (fields_dict w c)) @ '')''))"

section \<open>model.py: instances\<close>

text \<open>An instance: its class and its own \<open>__dict__\<close>.\<close>

record model_instance =
  inst_cls :: nat
  inst_dict :: "(string \<times> pyval) list"

text \<open>\<open>getattr(obj, name, default)\<close>: the instance's own attribute, else the class's, else the default.\<close>

definition py_getattr :: "world \<Rightarrow> model_instance \<Rightarrow> string \<Rightarrow> pyval \<Rightarrow> pyval" where
  "py_getattr w obj n d =
     (case map_of (inst_dict obj) n of
        Some v \<Rightarrow> v
      | None \<Rightarrow> (case class_getattr w (inst_cls obj) n of Some v \<Rightarrow> v | None \<Rightarrow> d))"

definition py_setattr :: "model_instance \<Rightarrow> string \<Rightarrow> pyval \<Rightarrow> model_instance" where
  "py_setattr obj n v = obj\<lparr>inst_dict := AList.update n v (inst_dict obj)\<rparr>"

text \<open>The property \<open>fields\<close>: \<open>self._fields.values()\<close>.\<close>

definition fields_of :: "world \<Rightarrow> model_instance \<Rightarrow> field list" where
  "fields_of w obj = map snd (fields_dict w (inst_cls obj))"

text \<open>\<open>Model._get_value\<close>: \<open>getattr(self, field.name, field.default)\<close>.\<close>

definition get_value :: "world \<Rightarrow> model_instance \<Rightarrow> field \<Rightarrow> pyval" where
  "get_value w obj f = py_getattr w obj (field_name f) (field_default f)"

text \<open>The property \<open>values\<close>.\<close>

definition values_of :: "world \<Rightarrow> model_instance \<Rightarrow> pyval list" where
  "values_of w obj = map (get_value w obj) (fields_of w obj)"

text \<open>\<open>Model.__eq__\<close>: \<open>isinstance(other, type(self)) and self.values == other.values\<close>.\<close>

definition model_eq :: "world \<Rightarrow> model_instance \<Rightarrow> model_instance \<Rightarrow> bool" where
  "model_eq w self other =
     (inst_cls self \<in> set (mro w (inst_cls other)) \<and> tuple_eq (values_of w self) (values_of w other))"

text \<open>\<open>Model._sql_format\<close>\<close>

definition sql_format :: "pyval \<Rightarrow> string" where
  "sql_format v = (if isinstance v TStr then [CHR 0x27] @ py_str v @ [CHR 0x27] else py_str v)"

text \<open>\<open>Model.to_sql\<close>: the f-string \<open>"({', '.join(...)}"\<close>.\<close>

definition to_sql :: "world \<Rightarrow> model_instance \<Rightarrow> string" where
  "to_sql w obj = ''('' @ join '', '' (map (\<lambda>f. sql_format (get_value w obj f)) (fields_of w obj))"

text \<open>\<open>Model.to_sql_fields\<close>\<close>

definition to_sql_fields :: "world \<Rightarrow> model_instance \<Rightarrow> string \<Rightarrow> string" where
  "to_sql_fields w obj joiner =
     join joiner (map (\<lambda>f. field_name f @ '' = '' @ sql_format (get_value w obj f)) (fields_of w obj))"

text \<open>
  \<open>Model.set_values\<close>, over the keyword arguments in the order given. The loop raises at the
  first entry it rejects; what it set before stays set.
\<close>

fun set_values :: "world \<Rightarrow> model_instance \<Rightarrow> (string \<times> pyval) list \<Rightarrow> model_instance \<times> error option" where
  "set_values w obj [] = (obj, None)"
| "set_values w obj ((name, v) # rest) =
     (case map_of (fields_dict w (inst_cls obj)) name of
        Some f \<Rightarrow>
          if isinstance v (field_type f) then set_values w (py_setattr obj name v) rest
          else (obj, Some (BadValue (field_name f) (type_name (field_type f))))
      | None \<Rightarrow> (obj, Some (FieldDoesNotExist name)))"

text \<open>\<open>cls(**values)\<close>: a new instance, then \<open>__init__\<close>, which is \<open>set_values\<close>.\<close>

definition Model_init :: "world \<Rightarrow> nat \<Rightarrow> (string \<times> pyval) list \<Rightarrow> error + model_instance" where
  "Model_init w c kwargs =
     (case set_values w \<lparr>inst_cls = c, inst_dict = []\<rparr> kwargs of
        (obj, None) \<Rightarrow> Inr obj
      | (obj, Some e) \<Rightarrow> Inl e)"

section \<open>database.py\<close>

text \<open>
  The storage engine is outside the library. What the library does to it is recorded: a
  connection is the list of the calls made on it and on its cursors. What it answers is a
  parameter: whether \<open>connect(url)\<close> succeeds, and for a statement, given the calls made so
  far, the rows its cursor holds or the exception \<open>execute\<close> raises.
\<close>

datatype conn_call = Execute string | Commit | Fetchall | Fetchone

type_synonym row = "pyval list"

record engine =
  open_ok :: "string \<Rightarrow> bool"
  run :: "conn_call list \<Rightarrow> string \<Rightarrow> error + row list"

text \<open>
  A \<open>Database\<close> object: its identity, \<open>models\<close>, \<open>connection\<close> (\<open>None\<close> until connected),
  \<open>cache\<close> (a dictionary from model classes to lists of instances) and the two entries of
  \<open>cache_config\<close>.
\<close>

record database =
  db_id :: nat
  models :: "nat list"
  connection :: "conn_call list option"
  cache :: "(nat \<times> model_instance list) list"
  cache_on :: bool
  cache_limit :: "int option"

text \<open>\<open>Database.add_model\<close>\<close>

definition add_model :: "database \<Rightarrow> nat \<Rightarrow> database" where
  "add_model db m = db\<lparr>models := models db @ [m]\<rparr>"

text \<open>\<open>Database.__init__(*models, connection)\<close>\<close>

definition Database_init :: "nat \<Rightarrow> nat list \<Rightarrow> conn_call list option \<Rightarrow> database" where
  "Database_init i ms conn =
     (foldl add_model
        \<lparr>db_id = i, models = [], connection = None, cache = [], cache_on = False,
         cache_limit = None\<rparr> ms)
     \<lparr>connection := conn, cache := [], cache_on := False, cache_limit := None\<rparr>"

text \<open>\<open>Database.set_caching\<close>\<close>

definition set_caching :: "database \<Rightarrow> bool \<Rightarrow> int \<Rightarrow> database" where
  "set_caching db on limit = db\<lparr>cache_on := on, cache_limit := Some limit\<rparr>"

text \<open>\<open>Database.caching_on\<close>: \<open>self.cache_config["on"] and model in self.cache\<close>.\<close>

definition caching_on :: "database \<Rightarrow> nat \<Rightarrow> bool" where
  "caching_on db m = (cache_on db \<and> map_of (cache db) m \<noteq> None)"

text \<open>
  \<open>obj in bucket\<close>: some item of the list equals the object. Instances of one class, which
  is what a model's bucket holds, are equal in either order of the operands.
\<close>

definition contains :: "world \<Rightarrow> model_instance list \<Rightarrow> model_instance \<Rightarrow> bool" where
  "contains w bucket obj = list_ex (\<lambda>item. model_eq w item obj) bucket"

text \<open>The loop of \<open>add_to_cache\<close>: append each object that is not in the bucket yet.\<close>

fun admit :: "world \<Rightarrow> model_instance list \<Rightarrow> model_instance list \<Rightarrow> model_instance list" where
  "admit w bucket [] = bucket"
| "admit w bucket (obj # rest) =
     admit w (if contains w bucket obj then bucket else bucket @ [obj]) rest"

text \<open>\<open>xs[:k]\<close> for an integer \<open>k\<close>; a \<open>bool\<close> is the integer 0 or 1.\<close>

definition slice_to :: "int \<Rightarrow> 'a list \<Rightarrow> 'a list" where
  "slice_to k xs = (if k < 0 then take (nat (int (length xs) + k)) xs else take (nat k) xs)"

definition int_of_bool :: "bool \<Rightarrow> int" where
  "int_of_bool b = (if b then 1 else 0)"

text \<open>
  \<open>Database.add_to_cache\<close>. In
  \<open>if count := (self.cache_config["limit"] - len(self.cache[model])) > 0:\<close>
  the assignment expression binds what stands to the right of \<open>:=\<close>, the whole comparison, so
  \<open>count\<close> is a \<open>bool\<close>; \<open>objects[:count]\<close> then slices with it. A model without a bucket
  raises \<open>KeyError\<close>, a limit that is \<open>None\<close> raises \<open>TypeError\<close>.
\<close>

definition add_to_cache ::
  "world \<Rightarrow> database \<Rightarrow> nat \<Rightarrow> model_instance list \<Rightarrow> database \<times> error option" where
  "add_to_cache w db m objects =
     (case map_of (cache db) m of
        None \<Rightarrow> (db, Some KeyError)
      | Some bucket \<Rightarrow>
         (case cache_limit db of
            None \<Rightarrow> (db, Some TypeError)
          | Some limit \<Rightarrow>
             (let count = (limit - int (length bucket) > 0)
              in if count
                 then (db\<lparr>cache :=
                             AList.update m (admit w bucket (slice_to (int_of_bool count) objects))
                               (cache db)\<rparr>, None)
                 else (db, None))))"

text \<open>\<open>cls._database = self\<close>\<close>

definition set_database :: "nat \<Rightarrow> nat \<Rightarrow> world \<Rightarrow> world" where
  "set_database c d w =
     (case class_of w c of
        None \<Rightarrow> w
      | Some k \<Rightarrow> w\<lparr>classes := AList.update c (k\<lparr>cls_database := Some d\<rparr>) (classes w)\<rparr>)"

text \<open>
  \<open>Database.model\<close>, the decorator: a class that does not have \<open>Model\<close> among its direct
  bases is replaced by \<open>type(cls.__name__, (cls, Model), {"__annotations__": ...})\<close>.
\<close>

definition model_decorator ::
  "nat \<Rightarrow> world \<times> database \<Rightarrow> (world \<times> database) \<times> (error + nat)" where
  "model_decorator cls st =
     (case st of (w, db) \<Rightarrow>
        (case class_of w cls of
           None \<Rightarrow> ((w, db), Inl AttributeError)
         | Some k \<Rightarrow>
            (case (if Model_id \<notin> set (cls_bases k)
                   then new_class (cls_name k) [cls, Model_id] (cls_annotations k) [] w
                   else (w, Inr cls)) of
               (w1, Inl e) \<Rightarrow> ((w1, db), Inl e)
             | (w1, Inr c) \<Rightarrow> ((set_database c (db_id db) w1, add_model db c), Inr c))))"

text \<open>\<open>Database.execute\<close>\<close>

datatype exec_result = NoResult | Rows "row list" | OneRow "row option"

definition execute ::
  "engine \<Rightarrow> database \<Rightarrow> string \<Rightarrow> bool \<Rightarrow> bool \<Rightarrow> bool \<Rightarrow> database \<times> (error + exec_result)" where
  "execute eng db query commit fetch fetch_one =
     (case connection db of
        None \<Rightarrow> (db, Inl NotConnected)
      | Some log \<Rightarrow>
         (case run eng log query of
            Inl e \<Rightarrow> (db\<lparr>connection := Some (log @ [Execute query])\<rparr>, Inl e)
          | Inr rows \<Rightarrow>
             (let log1 = log @ [Execute query];
                  log2 = (if commit then log1 @ [Commit] else log1)
              in if fetch \<or> fetch_one
                 then (if fetch
                       then (db\<lparr>connection := Some (log2 @ [Fetchall])\<rparr>, Inr (Rows rows))
                       else (db\<lparr>connection := Some (log2 @ [Fetchone])\<rparr>,
                             Inr (OneRow (case rows of [] \<Rightarrow> None | r # _ \<Rightarrow> Some r))))
                 else (db\<lparr>connection := Some log2\<rparr>, Inr NoResult))))"

text \<open>\<open>Database.create_tables\<close>: one statement per added model, in order, until one raises.\<close>

fun create_tables_loop :: "engine \<Rightarrow> world \<Rightarrow> nat list \<Rightarrow> database \<Rightarrow> database \<times> error option" where
  "create_tables_loop eng w [] db = (db, None)"
| "create_tables_loop eng w (m # ms) db =
     (case to_sql_table w m of
        Inl e \<Rightarrow> (db, Some e)
      | Inr t \<Rightarrow>
         (case execute eng db (''CREATE TABLE IF NOT EXISTS '' @ t) True False False of
            (db1, Inl e) \<Rightarrow> (db1, Some e)
          | (db1, Inr _) \<Rightarrow> create_tables_loop eng w ms db1))"

definition create_tables :: "engine \<Rightarrow> world \<Rightarrow> database \<Rightarrow> database \<times> error option" where
  "create_tables eng w db = create_tables_loop eng w (models db) db"

text \<open>\<open>Database.connect\<close>: a new connection has no calls on it yet.\<close>

definition connect :: "engine \<Rightarrow> world \<Rightarrow> database \<Rightarrow> string \<Rightarrow> bool \<Rightarrow> database \<times> error option" where
  "connect eng w db url mk_tables =
     (if open_ok eng url
      then (let db1 = db\<lparr>connection := Some []\<rparr>
            in if mk_tables then create_tables eng w db1 else (db1, None))
      else (db, Some EngineError))"

text \<open>\<open>object.__tablename__\<close>, which raises when neither the instance nor its class has it.\<close>

definition tablename_of :: "world \<Rightarrow> model_instance \<Rightarrow> error + pyval" where
  "tablename_of w obj =
     (case map_of (inst_dict obj) ''__tablename__'' of
        Some v \<Rightarrow> Inr v
      | None \<Rightarrow>
         (case class_getattr w (inst_cls obj) ''__tablename__'' of
            Some v \<Rightarrow> Inr v
          | None \<Rightarrow> Inl AttributeError))"

text \<open>\<open>Database.save\<close>, \<open>Database.delete\<close> and \<open>Database.update\<close>\<close>

definition save :: "engine \<Rightarrow> world \<Rightarrow> database \<Rightarrow> model_instance \<Rightarrow> database \<times> error option" where
  "save eng w db obj =
     (case tablename_of w obj of
        Inl e \<Rightarrow> (db, Some e)
      | Inr t \<Rightarrow>
         (case execute eng db
                 (''INSERT INTO '' @ py_str t @ '' (''
                    @ join '', '' (map fst (fields_dict w (inst_cls obj)))
                    @ '') VALUES '' @ to_sql w obj @ '')'') True False False of
            (db1, Inl e) \<Rightarrow> (db1, Some e)
          | (db1, Inr _) \<Rightarrow> (db1, None)))"

definition delete ::
  "engine \<Rightarrow> world \<Rightarrow> database \<Rightarrow> model_instance \<Rightarrow> int option \<Rightarrow> database \<times> error option" where
  "delete eng w db obj limit =
     (let lim = (case limit of Some l \<Rightarrow> '' LIMIT '' @ str_int l | None \<Rightarrow> [])
      in case tablename_of w obj of
           Inl e \<Rightarrow> (db, Some e)
         | Inr t \<Rightarrow>
            (case execute eng db
                    (''DELETE FROM '' @ py_str t @ '' WHERE ('' @ to_sql_fields w obj '' AND ''
                       @ '')'' @ lim) True False False of
               (db1, Inl e) \<Rightarrow> (db1, Some e)
             | (db1, Inr _) \<Rightarrow> (db1, None)))"

definition update :: "engine \<Rightarrow> world \<Rightarrow> database \<Rightarrow> model_instance \<Rightarrow> database \<times> error option" where
  "update eng w db obj =
     (case tablename_of w obj of
        Inl e \<Rightarrow> (db, Some e)
      | Inr t \<Rightarrow>
         (case execute eng db
                 (''UPDATE '' @ py_str t @ '' SET '' @ to_sql_fields w obj '', '')
                 True False False of
            (db1, Inl e) \<Rightarrow> (db1, Some e)
          | (db1, Inr _) \<Rightarrow> (db1, None)))"

text \<open>The statement of \<open>fetch\<close> and \<open>fetch_all\<close>.\<close>

definition select_query :: "pyval \<Rightarrow> (string \<times> pyval) list \<Rightarrow> string" where
  "select_query t kwargs =
     ''SELECT * FROM '' @ py_str t @ '' WHERE ''
       @ join '' AND '' (map (\<lambda>(k, v). k @ '' = '' @ sql_format v) kwargs)"

text \<open>An instance from a row: \<open>model(**{k: v for k, v in zip(field names, row)})\<close>.\<close>

definition from_row :: "world \<Rightarrow> nat \<Rightarrow> row \<Rightarrow> error + model_instance" where
  "from_row w m r = Model_init w m (zip (map fst (fields_dict w m)) r)"

fun from_rows :: "world \<Rightarrow> nat \<Rightarrow> row list \<Rightarrow> error + model_instance list" where
  "from_rows w m [] = Inr []"
| "from_rows w m (r # rs) =
     (case from_row w m r of
        Inl e \<Rightarrow> Inl e
      | Inr obj \<Rightarrow> (case from_rows w m rs of Inl e \<Rightarrow> Inl e | Inr objs \<Rightarrow> Inr (obj # objs)))"

text \<open>What \<open>fetch\<close> and \<open>fetch_all\<close> do once the objects are built.\<close>

definition cache_fetched ::
  "world \<Rightarrow> database \<Rightarrow> nat \<Rightarrow> model_instance list \<Rightarrow> database \<times> error option" where
  "cache_fetched w db m objects =
     (if caching_on db m then add_to_cache w db m objects else (db, None))"

text \<open>\<open>Database.fetch_all\<close>\<close>

definition fetch_all ::
  "engine \<Rightarrow> world \<Rightarrow> database \<Rightarrow> nat \<Rightarrow> (string \<times> pyval) list
     \<Rightarrow> database \<times> (error + model_instance list)" where
  "fetch_all eng w db m kwargs =
     (case class_getattr w m ''__tablename__'' of
        None \<Rightarrow> (db, Inl AttributeError)
      | Some t \<Rightarrow>
         (case execute eng db (select_query t kwargs) False True False of
            (db1, Inl e) \<Rightarrow> (db1, Inl e)
          | (db1, Inr (Rows rows)) \<Rightarrow>
             (case from_rows w m rows of
                Inl e \<Rightarrow> (db1, Inl e)
              | Inr objects \<Rightarrow>
                 (case cache_fetched w db1 m objects of
                    (db2, Some e) \<Rightarrow> (db2, Inl e)
                  | (db2, None) \<Rightarrow> (db2, Inr objects)))
          | (db1, Inr _) \<Rightarrow> (db1, Inl TypeError)))"

text \<open>\<open>Database.fetch\<close>: with no row, \<open>zip\<close> is given \<open>None\<close> and raises \<open>TypeError\<close>.\<close>

definition fetch ::
  "engine \<Rightarrow> world \<Rightarrow> database \<Rightarrow> nat \<Rightarrow> (string \<times> pyval) list
     \<Rightarrow> database \<times> (error + model_instance)" where
  "fetch eng w db m kwargs =
     (case class_getattr w m ''__tablename__'' of
        None \<Rightarrow> (db, Inl AttributeError)
      | Some t \<Rightarrow>
         (case execute eng db (select_query t kwargs) False False True of
            (db1, Inl e) \<Rightarrow> (db1, Inl e)
          | (db1, Inr (OneRow (Some r))) \<Rightarrow>
             (case from_row w m r of
                Inl e \<Rightarrow> (db1, Inl e)
              | Inr obj \<Rightarrow>
                 (case cache_fetched w db1 m [obj] of
                    (db2, Some e) \<Rightarrow> (db2, Inl e)
                  | (db2, None) \<Rightarrow> (db2, Inr obj)))
          | (db1, Inr _) \<Rightarrow> (db1, Inl TypeError)))"

text \<open>
  \<open>Database.get\<close>: the first object of the model's bucket for which
  \<open>getattr(object, key, value) == value\<close> holds for every keyword; \<open>None\<close> when the loop ends
  or caching is not on for the model.
\<close>

definition matches :: "world \<Rightarrow> (string \<times> pyval) list \<Rightarrow> model_instance \<Rightarrow> bool" where
  "matches w kwargs obj = list_all (\<lambda>(k, v). py_eq (py_getattr w obj k v) v) kwargs"

fun get_loop :: "world \<Rightarrow> (string \<times> pyval) list \<Rightarrow> model_instance list \<Rightarrow> model_instance option" where
  "get_loop w kwargs [] = None"
| "get_loop w kwargs (obj # rest) =
     (if matches w kwargs obj then Some obj else get_loop w kwargs rest)"

definition get :: "world \<Rightarrow> database \<Rightarrow> nat \<Rightarrow> (string \<times> pyval) list \<Rightarrow> model_instance option" where
  "get w db m kwargs =
     (if caching_on db m
      then (case map_of (cache db) m of Some bucket \<Rightarrow> get_loop w kwargs bucket | None \<Rightarrow> None)
      else None)"

text \<open>\<open>Database.get_or_fetch\<close>\<close>

definition get_or_fetch ::
  "engine \<Rightarrow> world \<Rightarrow> database \<Rightarrow> nat \<Rightarrow> (string \<times> pyval) list
     \<Rightarrow> database \<times> (error + model_instance)" where
  "get_or_fetch eng w db m kwargs =
     (case get w db m kwargs of
        Some obj \<Rightarrow> (db, Inr obj)
      | None \<Rightarrow> fetch eng w db m kwargs)"

subsection \<open>The public operations as steps\<close>

text \<open>
  One constructor per public method of \<open>Database\<close>. A step gives the interpreter state and the
  \<open>Database\<close> after the call, whether it returned or raised.
\<close>

datatype db_op =
    SetCaching bool int
  | CachingOn nat
  | AddToCache nat "model_instance list"
  | AddModel nat
  | ModelDecorator nat
  | Connect string bool
  | CreateTables
  | Exec string bool bool bool
  | Save model_instance
  | Delete model_instance "int option"
  | Update model_instance
  | FetchAll nat "(string \<times> pyval) list"
  | Fetch nat "(string \<times> pyval) list"
  | Get nat "(string \<times> pyval) list"
  | GetOrFetch nat "(string \<times> pyval) list"

fun step :: "engine \<Rightarrow> world \<times> database \<Rightarrow> db_op \<Rightarrow> world \<times> database" where
  "step eng (w, db) (SetCaching on limit) = (w, set_caching db on limit)"
| "step eng (w, db) (CachingOn m) = (w, db)"
| "step eng (w, db) (AddToCache m objects) = (w, fst (add_to_cache w db m objects))"
| "step eng (w, db) (AddModel m) = (w, add_model db m)"
| "step eng (w, db) (ModelDecorator cls) = fst (model_decorator cls (w, db))"
| "step eng (w, db) (Connect url mk_tables) = (w, fst (connect eng w db url mk_tables))"
| "step eng (w, db) CreateTables = (w, fst (create_tables eng w db))"
| "step eng (w, db) (Exec q commit fetch_flag fetch_one) =
     (w, fst (execute eng db q commit fetch_flag fetch_one))"
| "step eng (w, db) (Save obj) = (w, fst (save eng w db obj))"
| "step eng (w, db) (Delete obj limit) = (w, fst (delete eng w db obj limit))"
| "step eng (w, db) (Update obj) = (w, fst (update eng w db obj))"
| "step eng (w, db) (FetchAll m kwargs) = (w, fst (fetch_all eng w db m kwargs))"
| "step eng (w, db) (Fetch m kwargs) = (w, fst (fetch eng w db m kwargs))"
| "step eng (w, db) (Get m kwargs) = (w, db)"
| "step eng (w, db) (GetOrFetch m kwargs) = (w, fst (get_or_fetch eng w db m kwargs))"

text \<open>
  The states a \<open>Database\<close> can be in: as constructed, and after any public operation, with
  any engine, in any interpreter state.
\<close>

inductive reachable :: "database \<Rightarrow> bool" where
  init: "reachable (Database_init i ms conn)"
| op: "reachable db \<Longrightarrow> step eng (w, db) x = (w', db') \<Longrightarrow> reachable db'"

section \<open>What set_values accepts, and example schemas\<close>


text \<open>
  \<open>class User(Model): id: int; name: str\<close>, declared first in a fresh interpreter, and
  \<open>class Post(Model): title: str\<close>, declared after it.
\<close>

definition user_decl :: "world \<times> (error + nat)" where
  "user_decl =
     new_class ''User'' [Model_id] [(''id'', ByType TInt), (''name'', ByType TStr)] [] world0"

definition user_world :: world where
  "user_world = fst user_decl"

definition post_decl :: "world \<times> (error + nat)" where
  "post_decl = new_class ''Post'' [Model_id] [(''title'', ByType TStr)] [] user_world"

text \<open>\<open>User(id=i, name=s)\<close>, and \<open>User(id=i)\<close>.\<close>

definition user :: "int \<Rightarrow> string \<Rightarrow> model_instance" where
  "user i s = \<lparr>inst_cls = 2, inst_dict = [(''id'', VInt i), (''name'', VStr s)]\<rparr>"

definition user_id :: "int \<Rightarrow> model_instance" where
  "user_id i = \<lparr>inst_cls = 2, inst_dict = [(''id'', VInt i)]\<rparr>"

text \<open>
  \<open>class Item(Model): id: int = Field("id", int, 5)\<close>, and the same class with the field
  built as \<open>Field("ident", int, 5)\<close>; each declared first in a fresh interpreter.
\<close>

definition id_field :: field where
  "id_field = PyField 100 ''id'' TInt ''INTEGER'' (VInt 5)"

definition ident_field :: field where
  "ident_field = PyField 100 ''ident'' TInt ''INTEGER'' (VInt 5)"

definition item_decl :: "world \<times> (error + nat)" where
  "item_decl = new_class ''Item'' [Model_id] [(''id'', ByType TInt)] [(''id'', VField id_field)] world0"

definition renamed_decl :: "world \<times> (error + nat)" where
  "renamed_decl =
     new_class ''Item'' [Model_id] [(''id'', ByType TInt)] [(''id'', VField ident_field)] world0"

text \<open>A \<open>Database\<close> that is not connected, and one whose cache holds an empty bucket for \<open>User\<close>.\<close>

definition fresh_db :: database where
  "fresh_db = Database_init 0 [2] None"

definition bucket_db :: "model_instance list \<Rightarrow> database" where
  "bucket_db bucket =
     \<lparr>db_id = 0, models = [2], connection = None, cache = [(2, bucket)], cache_on = True,
      cache_limit = Some 2\<rparr>"

definition idle_engine :: engine where
  "idle_engine = \<lparr>open_ok = (\<lambda>url. True), run = (\<lambda>log q. Inr [])\<rparr>"

section \<open>The type table is a bijection on canonical names\<close>

lemma sql_type_registered:
  "sql_type TStr = Inr ''TEXT''" "sql_type TInt = Inr ''INTEGER''"
  "sql_type TFloat = Inr ''FLOAT''" "sql_type TDatetime = Inr ''DATETIME''"
  by (simp_all add: sql_type_def DATATYPES_def)

lemma python_type_registered:
  "python_type ''TEXT'' = Inr TStr" "python_type ''CHAR'' = Inr TStr"
  "python_type ''INTEGER'' = Inr TInt" "python_type ''BIGINT'' = Inr TInt"
  "python_type ''FLOAT'' = Inr TFloat" "python_type ''DATETIME'' = Inr TDatetime"
  by (simp_all add: python_type_def DATATYPES_def)

lemma sql_type_loop_unmapped:
  "t \<notin> fst ` set ds \<Longrightarrow>
     sql_type_loop ds t = Inl (PyException (''received invalid type '' @ type_name t))"
  by (induction ds t rule: sql_type_loop.induct) auto

lemma python_type_loop_unmapped:
  "s \<notin> \<Union> (set ` snd ` set ds) \<Longrightarrow>
     python_type_loop ds s = Inl (PyException (''received invalid SQL type '' @ s))"
  by (induction ds s rule: python_type_loop.induct) auto

lemma sql_type_unmapped:
  "t \<notin> fst ` set DATATYPES \<Longrightarrow>
     sql_type t = Inl (PyException (''received invalid type '' @ type_name t))"
  unfolding sql_type_def by (rule sql_type_loop_unmapped)

lemma python_type_unmapped:
  "s \<notin> \<Union> (set ` snd ` set DATATYPES) \<Longrightarrow>
     python_type s = Inl (PyException (''received invalid SQL type '' @ s))"
  unfolding python_type_def by (rule python_type_loop_unmapped)

text \<open>
  Claim C5. Every registered Python type maps to a storage name that maps back to it; the
  canonical name of every entry (the first of its tuple) maps to the entry's Python type
  and back to itself; every name of an entry's tuple, alias or not, resolves to that entry's
  Python type; and a type or a name outside the table makes the lookup raise.
\<close>

theorem typemap_roundtrip:
  "(\<forall>t \<in> fst ` set DATATYPES. \<exists>s. sql_type t = Inr s \<and> python_type s = Inr t)
   \<and> (\<forall>(p, sqls) \<in> set DATATYPES. \<exists>c rest. sqls = c # rest
          \<and> python_type c = Inr p \<and> sql_type p = Inr c)
   \<and> (\<forall>(p, sqls) \<in> set DATATYPES. \<forall>a \<in> set sqls. python_type a = Inr p)
   \<and> (t \<notin> fst ` set DATATYPES \<longrightarrow>
          sql_type t = Inl (PyException (''received invalid type '' @ type_name t)))
   \<and> (s \<notin> \<Union> (set ` snd ` set DATATYPES) \<longrightarrow>
          python_type s = Inl (PyException (''received invalid SQL type '' @ s)))"
proof (intro conjI impI)
  show "\<forall>t \<in> fst ` set DATATYPES. \<exists>s. sql_type t = Inr s \<and> python_type s = Inr t"
    using sql_type_registered python_type_registered by (simp add: DATATYPES_def)
  show "\<forall>(p, sqls) \<in> set DATATYPES. \<exists>c rest. sqls = c # rest
          \<and> python_type c = Inr p \<and> sql_type p = Inr c"
    using sql_type_registered python_type_registered by (simp add: DATATYPES_def)
  show "\<forall>(p, sqls) \<in> set DATATYPES. \<forall>a \<in> set sqls. python_type a = Inr p"
    using python_type_registered by (simp add: DATATYPES_def)
qed (simp_all add: sql_type_unmapped python_type_unmapped)

theorem typemap_roundtrip_witness:
  "TInt \<in> fst ` set DATATYPES \<and> sql_type TInt = Inr ''INTEGER''
   \<and> python_type ''INTEGER'' = Inr TInt \<and> python_type ''BIGINT'' = Inr TInt
   \<and> TBool \<notin> fst ` set DATATYPES
   \<and> sql_type TBool = Inl (PyException ''received invalid type bool'')
   \<and> ''VARCHAR'' \<notin> \<Union> (set ` snd ` set DATATYPES)
   \<and> python_type ''VARCHAR'' = Inl (PyException ''received invalid SQL type VARCHAR'')"
  using typemap_roundtrip [of TBool "''VARCHAR''"]
  by (simp add: DATATYPES_def sql_type_registered python_type_registered)

section \<open>The example schemas, evaluated\<close>

lemma user_decl_eq:
  "user_decl =
     (\<lparr>dicts =
          [(1, [(''id'', PyField 3 ''id'' TInt ''INTEGER'' VNone),
                (''name'', PyField 4 ''name'' TStr ''TEXT'' VNone)])],
        classes =
          [(0, Model_class),
           (2, \<lparr>cls_name = ''User'', cls_bases = [0], cls_mro = [0],
                 cls_annotations = [(''id'', ByType TInt), (''name'', ByType TStr)],
                 cls_attrs = [(''__tablename__'', VStr ''User'')],
                 cls_database = None, cls_fields = None\<rparr>)],
        next_id = 5\<rparr>, Inr 2)"
  by code_simp


lemma item_decl_eq:
  "item_decl =
     (\<lparr>dicts = [(1, [(''id'', id_field)])],
        classes =
          [(0, Model_class),
           (2, \<lparr>cls_name = ''Item'', cls_bases = [0], cls_mro = [0],
                 cls_annotations = [(''id'', ByType TInt)],
                 cls_attrs = [(''id'', VField id_field), (''__tablename__'', VStr ''Item'')],
                 cls_database = None, cls_fields = None\<rparr>)],
        next_id = 3\<rparr>, Inr 2)"
  by code_simp

section \<open>Every model class shares one field dictionary\<close>

text \<open>
  Claim C2. Declaring \<open>User\<close> with the fields \<open>id\<close> and \<open>name\<close> gives it exactly these two.
  Declaring \<open>Post\<close> with the field \<open>title\<close> afterwards stores \<open>title\<close> into the dictionary
  that \<open>Post._fields\<close> evaluates to, and that is the dictionary of \<open>Model\<close>, which
  \<open>User._fields\<close> evaluates to as well: \<open>User\<close> now has three fields, \<open>Post\<close> the same three,
  and the table of \<open>User\<close> gets a column \<open>title\<close>. The mapping of a model is changed by the
  declaration of another.
\<close>

theorem fields_shared_between_models:
  "snd user_decl = Inr 2
   \<and> map fst (fields_dict user_world 2) = [''id'', ''name'']
   \<and> snd post_decl = Inr 5
   \<and> fields_ref (fst post_decl) 2 = Some Model_fields_addr
   \<and> fields_ref (fst post_decl) 5 = Some Model_fields_addr
   \<and> map fst (fields_dict (fst post_decl) 2) = [''id'', ''name'', ''title'']
   \<and> map fst (fields_dict (fst post_decl) 5) = [''id'', ''name'', ''title'']
   \<and> to_sql_table (fst post_decl) 2 = Inr ''User (id INTEGER, name TEXT, title TEXT)''"
  by code_simp

section \<open>The literal tuple of an instance\<close>

lemma to_sql_values:
  "to_sql w obj = ''('' @ join '', '' (map sql_format (values_of w obj))"
  by (simp add: to_sql_def values_of_def comp_def)

text \<open>
  Claim C4. For \<open>User(id=1, name="a")\<close> the literals are rendered in field order, the text
  value in single quotes and the integer bare, after an opening parenthesis; nothing closes
  it. \<open>to_sql\<close> returns \<open>(1, 'a'\<close> where its docstring and the claim have \<open>(1, 'a')\<close>.
\<close>

theorem to_sql_leaves_tuple_open:
  "Model_init user_world 2 [(''id'', VInt 1), (''name'', VStr ''a'')] = Inr (user 1 ''a'')
   \<and> values_of user_world (user 1 ''a'') = [VInt 1, VStr ''a'']
   \<and> to_sql user_world (user 1 ''a'') = ''(1, '' @ [CHR 0x27] @ ''a'' @ [CHR 0x27]
   \<and> to_sql user_world (user 1 ''a'') \<noteq> ''(1, '' @ [CHR 0x27] @ ''a'' @ [CHR 0x27] @ '')''"
  by code_simp

section \<open>Validation of keyword values\<close>







section \<open>Equality of instances\<close>



lemma py_eq_sym: "py_eq a b = py_eq b a"
  by (cases a; cases b) auto

lemma tuple_eq_sym: "tuple_eq xs ys = tuple_eq ys xs"
  unfolding tuple_eq_def
  by (induction xs arbitrary: ys) (auto simp: list_all2_Cons1 list_all2_Cons2 py_eq_sym)

lemma self_in_mro: "c \<in> set (mro w c)"
  by (simp add: mro_def split: option.splits)


lemma model_eq_sym: "inst_cls a = inst_cls b \<Longrightarrow> model_eq w a b = model_eq w b a"
  using self_in_mro [of "inst_cls b" w] tuple_eq_sym [of "values_of w a" "values_of w b"]
  by (simp add: model_eq_def)



section \<open>A field declared with a Field object of its own\<close>

lemma field_for_same:
  "field_for c name ty w = Inr (f, w1) \<Longrightarrow> classes w1 = classes w \<and> dicts w1 = dicts w"
  by (auto simp: field_for_def Let_def split: option.splits pyval.splits sum.splits)

lemma field_for_prebuilt:
  "field_for c name ty w = Inr (f, w1) \<Longrightarrow> class_getattr w c name = Some (VField g) \<Longrightarrow> f = g"
  by (simp add: field_for_def)

lemma dict_store_classes: "classes (dict_store a n f w) = classes w"
  by (simp add: dict_store_def)

lemma dict_at_store: "dict_at (dict_store a n f w) a = AList.update n f (dict_at w a)"
  by (simp add: dict_store_def dict_at_def update_conv')

lemma dict_at_cong: "dicts w' = dicts w \<Longrightarrow> dict_at w' a = dict_at w a"
  by (simp add: dict_at_def)

lemma class_of_cong: "classes w' = classes w \<Longrightarrow> class_of w' = class_of w"
  by (rule ext) (simp add: class_of_def)

lemma class_getattr_cong:
  "classes w' = classes w \<Longrightarrow> class_getattr w' c n = class_getattr w c n"
proof -
  assume eq: "classes w' = classes w"
  have co: "class_of w' = class_of w" using eq by (rule class_of_cong)
  have "lookup_attr w' cs n = lookup_attr w cs n" for cs
    by (induction cs) (auto simp: co split: option.splits)
  then show ?thesis by (simp add: class_getattr_def mro_def co)
qed

lemma lookup_fields_cong:
  "(\<And>x. map_option cls_fields (class_of w' x) = map_option cls_fields (class_of w x)) \<Longrightarrow>
     lookup_fields w' cs = lookup_fields w cs"
proof (induction cs)
  case Nil
  then show ?case by simp
next
  case (Cons x cs)
  from Cons.prems [of x] Cons.IH [OF Cons.prems] show ?case
    by (cases "class_of w' x"; cases "class_of w x") (auto split: option.splits)
qed

lemma fields_ref_cong:
  assumes "classes w' = classes w"
  shows "fields_ref w' c = fields_ref w c"
proof -
  have co: "class_of w' = class_of w" using assms by (rule class_of_cong)
  have "lookup_fields w' cs = lookup_fields w cs" for cs
    by (rule lookup_fields_cong) (simp add: co)
  then show ?thesis by (simp add: fields_ref_def mro_def co)
qed

lemma init_fields_classes:
  "init_fields c anns w = (w', r) \<Longrightarrow> classes w' = classes w"
proof (induction anns arbitrary: w)
  case Nil
  then show ?case by simp
next
  case (Cons a rest)
  obtain name ty where a: "a = (name, ty)" by (cases a)
  show ?case
  proof (cases "field_for c name ty w")
    case (Inl e)
    with Cons.prems show ?thesis by (simp add: a)
  next
    case (Inr p)
    obtain f w1 where p: "p = (f, w1)" by (cases p)
    have c1: "classes w1 = classes w" using field_for_same Inr p by blast
    show ?thesis
    proof (cases "fields_ref w1 c")
      case None
      with Cons.prems Inr p c1 show ?thesis by (auto simp: a)
    next
      case (Some ad)
      with Cons.prems Inr p have "init_fields c rest (dict_store ad name f w1) = (w', r)"
        by (simp add: a)
      from Cons.IH [OF this] c1 show ?thesis by (simp add: dict_store_classes)
    qed
  qed
qed

lemma init_fields_resolves:
  "init_fields c anns w = (w', None) \<Longrightarrow> anns \<noteq> [] \<Longrightarrow> \<exists>a. fields_ref w c = Some a"
proof (cases anns)
  case Nil
  assume "anns \<noteq> []"
  with Nil show ?thesis by simp
next
  case (Cons p rest)
  assume ok: "init_fields c anns w = (w', None)"
  obtain name ty where p: "p = (name, ty)" by (cases p)
  from ok Cons p obtain f w1 where ff: "field_for c name ty w = Inr (f, w1)"
    by (cases "field_for c name ty w") auto
  with ok Cons p obtain a where "fields_ref w1 c = Some a"
    by (cases "fields_ref w1 c") auto
  moreover have "classes w1 = classes w" using field_for_same [OF ff] by simp
  then have "fields_ref w1 c = fields_ref w c" by (rule fields_ref_cong)
  ultimately show ?thesis by simp
qed

lemma init_fields_prebuilt:
  "init_fields c anns w = (w', None) \<Longrightarrow> class_getattr w c n = Some (VField g) \<Longrightarrow>
     fields_ref w c = Some a \<Longrightarrow>
     n \<in> fst ` set anns \<or> map_of (dict_at w a) n = Some g \<Longrightarrow>
     map_of (dict_at w' a) n = Some g"
proof (induction anns arbitrary: w)
  case Nil
  then show ?case by simp
next
  case (Cons p rest)
  obtain name ty where p: "p = (name, ty)" by (cases p)
  from Cons.prems(1) p obtain f w1 where ff: "field_for c name ty w = Inr (f, w1)"
    by (cases "field_for c name ty w") auto
  have same: "classes w1 = classes w" "dicts w1 = dicts w"
    using field_for_same [OF ff] by simp_all
  have ref1: "fields_ref w1 c = Some a"
    using fields_ref_cong [OF same(1)] Cons.prems(3) by simp
  let ?w2 = "dict_store a name f w1"
  have next_step: "init_fields c rest ?w2 = (w', None)"
    using Cons.prems(1) p ff ref1 by simp
  have cl2: "classes ?w2 = classes w" using same(1) by (simp add: dict_store_classes)
  have ga: "class_getattr ?w2 c n = Some (VField g)"
    using class_getattr_cong [OF cl2] Cons.prems(2) by simp
  have ref2: "fields_ref ?w2 c = Some a"
    using fields_ref_cong [OF cl2] Cons.prems(3) by simp
  have same_name: "name = n \<longrightarrow> f = g"
    using field_for_prebuilt [OF ff] Cons.prems(2) by auto
  have d2: "dict_at ?w2 a = AList.update name f (dict_at w a)"
    using dict_at_store [of a name f w1] dict_at_cong [OF same(2)] by simp
  have "n \<in> fst ` set rest \<or> map_of (dict_at ?w2 a) n = Some g"
    using Cons.prems(4) same_name by (auto simp: p d2 update_conv')
  from Cons.IH [OF next_step ga ref2 this] show ?case .
qed

lemma class_getattr_own:
  "class_of w c = Some k \<Longrightarrow> map_of (cls_attrs k) n = Some v \<Longrightarrow> class_getattr w c n = Some v"
  by (simp add: class_getattr_def mro_def)

lemma new_class_prebuilt:
  assumes new: "new_class name bases anns attrs w0 = (w, Inr c)"
    and model: "Model_id \<in> set (linearize w0 bases)"
    and ann: "n \<in> fst ` set anns"
    and attr: "map_of attrs n = Some (VField g)"
  shows "map_of (fields_dict w c) n = Some g \<and> class_getattr w c n = Some (VField g)"
proof -
  define k where "k = \<lparr>cls_name = name, cls_bases = bases, cls_mro = linearize w0 bases,
               cls_annotations = anns, cls_attrs = attrs, cls_database = None, cls_fields = None\<rparr>"
  define w1 where "w1 = w0\<lparr>classes := AList.update (next_id w0) k (classes w0), next_id := Suc (next_id w0)\<rparr>"
  have unf: "new_class name bases anns attrs w0 =
      (case init_subclass (next_id w0) w1 of
         (w2, Some e) \<Rightarrow> (w2, Inl e) | (w2, None) \<Rightarrow> (w2, Inr (next_id w0)))"
    using model unfolding new_class_def k_def w1_def Let_def by simp
  have c: "c = next_id w0" and sub: "init_subclass c w1 = (w, None)"
    using new unfolding unf by (auto split: prod.splits option.splits)
  have k1: "class_of w1 c = Some k"
    by (simp add: class_of_def w1_def c update_conv')
  have g1: "class_getattr w1 c n = Some (VField g)"
    using class_getattr_own [OF k1] attr by (simp add: k_def)
  define t where "t w2 = (case class_getattr w2 c ''__tablename__'' of Some v \<Rightarrow> v | None \<Rightarrow> VStr (cls_name k))" for w2
  define k' where "k' w2 = k\<lparr>cls_attrs := AList.update ''__tablename__'' (t w2) (cls_attrs k)\<rparr>" for w2
  obtain w2 where w2: "init_fields c anns w1 = (w2, None)"
    and w: "w = w2\<lparr>classes := AList.update c (k' w2) (classes w2)\<rparr>"
    using sub k1 by (auto simp: init_subclass_def Let_def k_def k'_def t_def split: prod.splits option.splits)
  have "anns \<noteq> []" using ann by auto
  from init_fields_resolves [OF w2 this] obtain a where a: "fields_ref w1 c = Some a" by blast
  have st: "map_of (dict_at w2 a) n = Some g"
    using init_fields_prebuilt [OF w2 g1 a] ann by blast
  have cl2: "classes w2 = classes w1" using init_fields_classes [OF w2] .
  have g2: "class_getattr w2 c n = Some (VField g)"
    using class_getattr_cong [OF cl2] g1 by simp
  have a2: "fields_ref w2 c = Some a"
    using fields_ref_cong [OF cl2] a by simp
  have k2: "class_of w2 c = Some k"
    using k1 class_of_cong [OF cl2] by simp
  have kw: "class_of w c = Some (k' w2)"
    by (simp add: w class_of_def update_conv')
  have own: "map_of (cls_attrs (k' w2)) n = Some (VField g)"
    using g2 attr by (auto simp: update_conv' k_def k'_def t_def)
  have ga: "class_getattr w c n = Some (VField g)"
    using class_getattr_own [OF kw own] .
  have flds: "map_option cls_fields (class_of w x) = map_option cls_fields (class_of w2 x)" for x
    using k2 by (auto simp: w class_of_def update_conv' k'_def)
  have mro_eq: "mro w c = mro w2 c"
    using k2 kw by (simp add: mro_def k'_def)
  have "fields_ref w c = Some a"
    using lookup_fields_cong [of w w2 "mro w2 c"] flds a2 mro_eq by (simp add: fields_ref_def)
  moreover have "dict_at w a = dict_at w2 a"
    by (simp add: w dict_at_def)
  ultimately have "map_of (fields_dict w c) n = Some g"
    using st by (simp add: fields_dict_def)
  with ga show ?thesis by simp
qed

lemma field_not_own_default: "VField g \<noteq> field_default g"
proof
  assume "VField g = field_default g"
  then have "size (VField g) = size (field_default g)" by simp
  then show False by (cases g) simp
qed

text \<open>
  Claim C10, as stated, at \<open>id: int = Field("ident", int, 5)\<close>: the object's name is not the
  attribute's. An instance that never set the field then reports 5, the stored default of
  the \<open>Field\<close>, and not the \<open>Field\<close> object, because \<open>_get_value\<close> looks the value up under
  \<open>field.name\<close>.
\<close>

theorem prebuilt_field_renamed_counterexample:
  "snd renamed_decl = Inr 2
   \<and> map_of (fields_dict (fst renamed_decl) 2) ''id'' = Some ident_field
   \<and> map_of (inst_dict \<lparr>inst_cls = 2, inst_dict = []\<rparr>) ''id'' = None
   \<and> get_value (fst renamed_decl) \<lparr>inst_cls = 2, inst_dict = []\<rparr> ident_field = field_default ident_field
   \<and> get_value (fst renamed_decl) \<lparr>inst_cls = 2, inst_dict = []\<rparr> ident_field \<noteq> VField ident_field
   \<and> values_of (fst renamed_decl) \<lparr>inst_cls = 2, inst_dict = []\<rparr> = [VInt 5]"
  by code_simp

text \<open>
  Claim C10, amended. Let a class be declared with an annotated attribute whose value in the
  class body is a \<open>Field\<close> object that carries the attribute's own name. Then that object is
  the class's field of that name, and an instance of the class that has not set the
  attribute reports the \<open>Field\<close> object itself, which is not its stored default, as the
  field's value: at the field's position in the value tuple, and, as the object's text, in
  the literal that \<open>to_sql\<close> and \<open>to_sql_fields\<close> render for it.
\<close>

theorem prebuilt_field_value:
  assumes new: "new_class name bases anns attrs w0 = (w, Inr c)"
    and model: "Model_id \<in> set (linearize w0 bases)"
    and ann: "n \<in> fst ` set anns"
    and attr: "map_of attrs n = Some (VField g)"
    and nm: "field_name g = n"
    and inst: "inst_cls obj = c"
    and unset: "map_of (inst_dict obj) n = None"
  shows "map_of (fields_dict w c) n = Some g
       \<and> get_value w obj g = VField g
       \<and> get_value w obj g \<noteq> field_default g
       \<and> (\<exists>i < length (fields_of w obj). fields_of w obj ! i = g \<and> values_of w obj ! i = VField g)
       \<and> sql_format (get_value w obj g) = py_str (VField g)
       \<and> to_sql w obj = ''('' @ join '', '' (map sql_format (values_of w obj))
       \<and> to_sql_fields w obj joiner
           = join joiner (map (\<lambda>f. field_name f @ '' = '' @ sql_format (get_value w obj f))
                            (fields_of w obj))"
proof -
  from new_class_prebuilt [OF new model ann attr]
  have fld: "map_of (fields_dict w c) n = Some g" and cattr: "class_getattr w c n = Some (VField g)"
    by simp_all
  have gv: "get_value w obj g = VField g"
    using cattr unset by (simp add: get_value_def py_getattr_def nm inst)
  have "g \<in> set (fields_of w obj)"
    using map_of_SomeD [OF fld] by (force simp: fields_of_def inst)
  then obtain i where i: "i < length (fields_of w obj)" "fields_of w obj ! i = g"
    by (auto simp: in_set_conv_nth)
  then have "values_of w obj ! i = VField g"
    using gv by (simp add: values_of_def)
  with i have pos: "\<exists>i < length (fields_of w obj). fields_of w obj ! i = g \<and> values_of w obj ! i = VField g"
    by blast
  have fmt: "sql_format (get_value w obj g) = py_str (VField g)"
    by (simp add: gv sql_format_def isinstance_def)
  from fld gv pos fmt field_not_own_default [of g] show ?thesis
    by (simp add: to_sql_values to_sql_fields_def)
qed

theorem prebuilt_field_value_witness:
  "new_class ''Item'' [Model_id] [(''id'', ByType TInt)] [(''id'', VField id_field)] world0
     = (fst item_decl, Inr 2)
   \<and> Model_id \<in> set (linearize world0 [Model_id])
   \<and> field_name id_field = ''id''
   \<and> map_of (inst_dict \<lparr>inst_cls = 2, inst_dict = []\<rparr>) ''id'' = None
   \<and> get_value (fst item_decl) \<lparr>inst_cls = 2, inst_dict = []\<rparr> id_field = VField id_field
   \<and> to_sql (fst item_decl) \<lparr>inst_cls = 2, inst_dict = []\<rparr> = ''(<ormic.field.Field object at 0x64>''"
proof -
  let ?obj = "\<lparr>inst_cls = 2, inst_dict = []\<rparr> :: model_instance"
  have new: "new_class ''Item'' [Model_id] [(''id'', ByType TInt)] [(''id'', VField id_field)] world0
     = (fst item_decl, Inr 2)"
    using item_decl_eq by (simp add: item_decl_def)
  have model: "Model_id \<in> set (linearize world0 [Model_id])"
    by code_simp
  have ann: "''id'' \<in> fst ` set [(''id'', ByType TInt)]" by simp
  have attr: "map_of [(''id'', VField id_field)] ''id'' = Some (VField id_field)" by simp
  have nm: "field_name id_field = ''id''" by (simp add: id_field_def)
  have inst: "inst_cls ?obj = 2" by simp
  have unset: "map_of (inst_dict ?obj) ''id'' = None" by simp
  from prebuilt_field_value [OF new model ann attr nm inst unset]
  have gv: "get_value (fst item_decl) ?obj id_field = VField id_field" by blast
  have sql: "to_sql (fst item_decl) ?obj = ''(<ormic.field.Field object at 0x64>''"
    by code_simp
  from new model nm unset gv sql show ?thesis by blast
qed

section \<open>execute without a connection\<close>

text \<open>
  Claim C8. On a \<open>Database\<close> whose connection is \<open>None\<close>, \<open>execute\<close> raises \<open>NotConnected\<close>
  for every statement and every choice of \<open>commit\<close>, \<open>fetch\<close> and \<open>fetch_one\<close>, whatever the
  engine would answer, and the \<open>Database\<close> after the call is the one before it: no call has
  been made on any connection.
\<close>

theorem execute_not_connected:
  "connection db = None \<Longrightarrow>
     execute eng db query commit fetch_flag fetch_one = (db, Inl NotConnected)"
  by (simp add: execute_def)

theorem execute_not_connected_witness:
  "connection fresh_db = None
   \<and> execute idle_engine fresh_db ''SELECT 1'' True False True = (fresh_db, Inl NotConnected)
   \<and> error_text NotConnected = ''This database handler isn't connected to a database.''"
proof -
  have c: "connection fresh_db = None"
    by (simp add: fresh_db_def Database_init_def)
  from execute_not_connected [OF c]
  have "execute idle_engine fresh_db ''SELECT 1'' True False True = (fresh_db, Inl NotConnected)" .
  with c show ?thesis by simp
qed

section \<open>Admission to the cache\<close>

lemma admit_one: "length (admit w bucket (take 1 objects)) \<le> Suc (length bucket)"
  by (cases objects) simp_all

lemma add_to_cache_at_most_one:
  assumes "map_of (cache db) m = Some bucket"
  shows "\<exists>bucket'. map_of (cache (fst (add_to_cache w db m objects))) m = Some bucket'
           \<and> length bucket' \<le> Suc (length bucket)"
proof (cases "cache_limit db")
  case None
  with assms show ?thesis by (simp add: add_to_cache_def)
next
  case (Some limit)
  show ?thesis
  proof (cases "limit - int (length bucket) > 0")
    case True
    have "slice_to (int_of_bool True) objects = take 1 objects"
      by (simp add: slice_to_def int_of_bool_def)
    with assms Some True admit_one [of w bucket objects] show ?thesis
      by (simp add: add_to_cache_def update_conv')
  next
    case False
    with assms Some show ?thesis by (simp add: add_to_cache_def)
  qed
qed

text \<open>
  Claim C1. With limit 2 and an empty bucket for \<open>User\<close>, admitting three instances that are
  pairwise unequal leaves one instance in the bucket, the first, where the claim has the
  first two: \<open>count\<close> is the truth value of the comparison, not the remaining capacity.
\<close>

theorem add_to_cache_admits_one_of_three:
  "\<not> model_eq user_world (user_id 1) (user_id 2)
   \<and> \<not> model_eq user_world (user_id 1) (user_id 3)
   \<and> \<not> model_eq user_world (user_id 2) (user_id 3)
   \<and> cache_limit (bucket_db []) = Some 2
   \<and> map_of (cache (bucket_db [])) 2 = Some []
   \<and> add_to_cache user_world (bucket_db []) 2 [user_id 1, user_id 2, user_id 3]
        = (bucket_db [user_id 1], None)
   \<and> bucket_db [user_id 1] \<noteq> bucket_db [user_id 1, user_id 2]"
  by code_simp

section \<open>Lookup in the cache\<close>







section \<open>The cache never gets a bucket\<close>

lemma execute_cache: "cache (fst (execute eng db q c f f1)) = cache db"
  by (simp add: execute_def Let_def split: option.splits sum.splits)

lemma execute_cacheD: "execute eng db q c f f1 = (db1, r) \<Longrightarrow> cache db1 = cache db"
  using execute_cache [of eng db q c f f1] by simp

lemma create_tables_loop_cache: "cache (fst (create_tables_loop eng w ms db)) = cache db"
proof (induction ms arbitrary: db)
  case Nil
  then show ?case by simp
next
  case (Cons m ms)
  show ?case
  proof (cases "to_sql_table w m")
    case (Inl e)
    then show ?thesis by simp
  next
    case (Inr t)
    obtain db1 r where ex: "execute eng db (''CREATE TABLE IF NOT EXISTS '' @ t) True False False = (db1, r)"
      by (cases "execute eng db (''CREATE TABLE IF NOT EXISTS '' @ t) True False False")
    have "cache db1 = cache db" using execute_cacheD [OF ex] .
    with Inr ex Cons.IH [of db1] show ?thesis by (cases r) auto
  qed
qed

lemma create_tables_cache: "cache (fst (create_tables eng w db)) = cache db"
  by (simp add: create_tables_def create_tables_loop_cache)

lemma connect_cache: "cache (fst (connect eng w db url mk)) = cache db"
  using create_tables_cache [of eng w "db\<lparr>connection := Some []\<rparr>"]
  by (simp add: connect_def Let_def)

lemma save_cache: "cache (fst (save eng w db obj)) = cache db"
  by (auto simp: save_def split: sum.splits prod.splits dest: execute_cacheD)

lemma delete_cache: "cache (fst (delete eng w db obj limit)) = cache db"
  by (auto simp: delete_def Let_def split: sum.splits prod.splits dest: execute_cacheD)

lemma update_cache: "cache (fst (update eng w db obj)) = cache db"
  by (auto simp: update_def split: sum.splits prod.splits dest: execute_cacheD)

lemma caching_on_empty: "cache db = [] \<Longrightarrow> \<not> caching_on db m"
  by (simp add: caching_on_def)

lemma add_to_cache_empty: "cache db = [] \<Longrightarrow> add_to_cache w db m objects = (db, Some KeyError)"
  by (simp add: add_to_cache_def)

lemma cache_fetched_empty: "cache db = [] \<Longrightarrow> cache_fetched w db m objects = (db, None)"
  by (simp add: cache_fetched_def caching_on_empty)

lemma fetch_all_cache:
  assumes "cache db = []"
  shows "cache (fst (fetch_all eng w db m kwargs)) = []"
proof (cases "class_getattr w m ''__tablename__''")
  case None
  with assms show ?thesis by (simp add: fetch_all_def)
next
  case (Some t)
  obtain db1 r where ex: "execute eng db (select_query t kwargs) False True False = (db1, r)"
    by (cases "execute eng db (select_query t kwargs) False True False")
  then have db1: "cache db1 = []" using assms execute_cacheD by fastforce
  show ?thesis
    using Some ex db1 cache_fetched_empty [OF db1]
    by (auto simp: fetch_all_def split: sum.splits exec_result.splits)
qed

lemma fetch_cache:
  assumes "cache db = []"
  shows "cache (fst (fetch eng w db m kwargs)) = []"
proof (cases "class_getattr w m ''__tablename__''")
  case None
  with assms show ?thesis by (simp add: fetch_def)
next
  case (Some t)
  obtain db1 r where ex: "execute eng db (select_query t kwargs) False False True = (db1, r)"
    by (cases "execute eng db (select_query t kwargs) False False True")
  then have db1: "cache db1 = []" using assms execute_cacheD by fastforce
  show ?thesis
    using Some ex db1 cache_fetched_empty [OF db1]
    by (auto simp: fetch_def split: sum.splits exec_result.splits option.splits)
qed

lemma get_empty: "cache db = [] \<Longrightarrow> get w db m kwargs = None"
  by (simp add: get_def caching_on_empty)

lemma get_or_fetch_cache:
  "cache db = [] \<Longrightarrow> cache (fst (get_or_fetch eng w db m kwargs)) = []"
  by (simp add: get_or_fetch_def get_empty fetch_cache)

lemma model_decorator_cache: "cache (snd (fst (model_decorator cls (w, db)))) = cache db"
  by (auto simp: model_decorator_def add_model_def split: option.splits sum.splits prod.splits)

lemma Database_init_cache: "cache (Database_init i ms conn) = []"
  by (simp add: Database_init_def)

lemma step_cache:
  assumes "cache db = []"
  shows "cache (snd (step eng (w, db) x)) = []"
proof (cases x)
  case (ModelDecorator cls)
  then show ?thesis using assms model_decorator_cache [of cls w db] by simp
qed (simp_all add: assms set_caching_def add_to_cache_empty add_model_def connect_cache
      create_tables_cache execute_cache save_cache delete_cache update_cache fetch_all_cache
      fetch_cache get_or_fetch_cache)

lemma reachable_cache: "reachable db \<Longrightarrow> cache db = []"
proof (induction rule: reachable.induct)
  case (init i ms conn)
  show ?case by (rule Database_init_cache)
next
  case (op db eng w x w' db')
  from step_cache [OF op.IH, of eng w x] op.hyps(2) show ?case by simp
qed

text \<open>
  Claim C3. In every state a \<open>Database\<close> reaches from its construction through its public
  methods, the cache has no bucket: caching is not on for any model, also right after
  \<open>set_caching(on=True, limit=n)\<close>; \<open>get\<close> returns \<open>None\<close>; \<open>fetch\<close> and \<open>fetch_all\<close> leave the
  cache without a bucket, whatever the engine returns; and \<open>add_to_cache\<close> itself raises
  \<open>KeyError\<close> and changes nothing.
\<close>

theorem cache_never_populated:
  assumes "reachable db"
  shows "cache db = []
       \<and> \<not> caching_on db m
       \<and> \<not> caching_on (set_caching db True n) m
       \<and> get w db m kwargs = None
       \<and> cache (fst (fetch eng w db m kwargs)) = []
       \<and> cache (fst (fetch_all eng w db m kwargs)) = []
       \<and> add_to_cache w db m objects = (db, Some KeyError)"
proof -
  have e: "cache db = []" using assms by (rule reachable_cache)
  have "reachable (set_caching db True n)"
    using reachable.op [OF assms, of eng w "SetCaching True n" w "set_caching db True n"] by simp
  then have "cache (set_caching db True n) = []" by (rule reachable_cache)
  then have "\<not> caching_on (set_caching db True n) m" by (rule caching_on_empty)
  with e show ?thesis
    by (simp add: caching_on_empty get_empty fetch_cache fetch_all_cache add_to_cache_empty)
qed

theorem cache_never_populated_witness:
  "reachable (fst (connect idle_engine user_world (set_caching fresh_db True 5) ''app.db'' True))
   \<and> cache_on (fst (connect idle_engine user_world (set_caching fresh_db True 5) ''app.db'' True))
   \<and> cache (fst (connect idle_engine user_world (set_caching fresh_db True 5) ''app.db'' True)) = []
   \<and> \<not> caching_on (fst (connect idle_engine user_world (set_caching fresh_db True 5) ''app.db'' True)) 2
   \<and> cache (fst (fetch_all idle_engine user_world
                  (fst (connect idle_engine user_world (set_caching fresh_db True 5) ''app.db'' True))
                  2 [(''id'', VInt 1)])) = []"
proof -
  let ?db1 = "set_caching fresh_db True 5"
  let ?db2 = "fst (connect idle_engine user_world ?db1 ''app.db'' True)"
  have r0: "reachable fresh_db"
    unfolding fresh_db_def by (rule reachable.init)
  have r1: "reachable ?db1"
    using reachable.op [OF r0, of idle_engine user_world "SetCaching True 5" user_world ?db1] by simp
  have r2: "reachable ?db2"
    using reachable.op [OF r1, of idle_engine user_world "Connect ''app.db'' True" user_world ?db2]
    by simp
  have on: "cache_on ?db2" by code_simp
  from cache_never_populated [OF r2, of 2 5 user_world "[(''id'', VInt 1)]" idle_engine]
  have "cache ?db2 = [] \<and> \<not> caching_on ?db2 2
        \<and> cache (fst (fetch_all idle_engine user_world ?db2 2 [(''id'', VInt 1)])) = []"
    by blast
  with r2 on show ?thesis by blast
qed

end
